theory Spec2Isabelle
  imports Complex_Main
begin

section \<open>Numbers, vectors and the random source\<close>

text \<open>
  The scene code computes with JavaScript numbers. They are modelled as real numbers:
  rounding is not modelled, and the only non-finite results that matter (a division by
  zero in \<open>normalize\<close>) are written out as values of \<open>jsnum\<close>.
\<close>

datatype TreeState = SCATTERED | TREE_SHAPE

datatype vec3 = Vector3 (vx: real) (vy: real) (vz: real)

text \<open>
  \<open>Math.random()\<close> is the only source of randomness. The source is an infinite sequence
  of draws; a call takes the first draw and leaves the rest.
\<close>

type_synonym rng = "nat \<Rightarrow> real"

definition random :: "rng \<Rightarrow> real \<times> rng" where
  "random g = (g 0, \<lambda>n. g (Suc n))"

definition unit_draws :: "rng \<Rightarrow> bool" where
  \<comment> \<open>every draw lies in the half-open unit interval, as \<open>Math.random()\<close> promises\<close>
  "unit_draws g = (\<forall>n. 0 \<le> g n \<and> g n < 1)"

text \<open>\<open>Vector3.length()\<close>: the Euclidean norm \<open>Math.sqrt(x*x + y*y + z*z)\<close>.\<close>

definition vlength :: "vec3 \<Rightarrow> real" where
  "vlength p = sqrt (vx p * vx p + vy p * vy p + vz p * vz p)"

section \<open>Point generators (utils/math)\<close>

definition getRandomSpherePoint :: "real \<Rightarrow> rng \<Rightarrow> vec3 \<times> rng" where
  "getRandomSpherePoint radius g =
     (let (u, g1) = random g;
          (v, g2) = random g1;
          theta = 2 * pi * u;
          phi = arccos (2 * v - 1);
          (w, g3) = random g2;
          r = root 3 w * radius;
          sinPhi = sin phi;
          x = r * sinPhi * cos theta;
          y = r * sinPhi * sin theta;
          z = r * cos phi
      in (Vector3 x y z, g3))"

definition getTreeSpiralPoint ::
    "real \<Rightarrow> real \<Rightarrow> real \<Rightarrow> real \<Rightarrow> real \<Rightarrow> rng \<Rightarrow> vec3 \<times> rng" where
  \<comment> \<open>the callers pass \<open>spirals\<close> and \<open>jitter\<close> explicitly (defaults 8 and 0.5)\<close>
  "getTreeSpiralPoint t maxRadius height spirals jitter g =
     (let y = (t - 0.5) * height;
          currentRadius = maxRadius * (1 - t);
          angle = t * pi * 2 * spirals;
          x = cos angle * currentRadius;
          z = sin angle * currentRadius;
          (r1, g1) = random g;
          randX = (r1 - 0.5) * jitter;
          (r2, g2) = random g1;
          randY = (r2 - 0.5) * jitter;
          (r3, g3) = random g2;
          randZ = (r3 - 0.5) * jitter
      in (Vector3 (x + randX) (y + randY) (z + randZ), g3))"

text \<open>
  \<open>normalize\<close> divides without a guard. A JavaScript division of finite numbers by zero
  raises nothing: it returns an infinity or NaN. The result type keeps an error branch so
  that "the call fails" can be stated; the source has no \<open>throw\<close>, so no equation of the
  model returns it.
\<close>

datatype jsnum = Finite real | PosInfinity | NegInfinity | NaN

datatype error = DomainError

definition js_div :: "real \<Rightarrow> real \<Rightarrow> jsnum" where
  \<comment> \<open>IEEE division of finite numbers; a zero divisor here is the \<open>+0\<close> of \<open>m - m\<close>\<close>
  "js_div a b =
     (if b \<noteq> 0 then Finite (a / b)
      else if 0 < a then PosInfinity
      else if a < 0 then NegInfinity
      else NaN)"

definition normalize :: "real \<Rightarrow> real \<Rightarrow> real \<Rightarrow> error + jsnum" where
  "normalize val mx mn = Inr (js_div (val - mn) (mx - mn))"

section \<open>Vector helpers of the rendering library\<close>

text \<open>
  The scene code calls a few \<open>THREE.Vector3\<close> methods and one GLSL builtin. The library is
  not part of the repository; the helpers are written as the library documents them.
\<close>

definition multiplyScalar :: "vec3 \<Rightarrow> real \<Rightarrow> vec3" where
  "multiplyScalar p s = Vector3 (vx p * s) (vy p * s) (vz p * s)"

definition setLength :: "vec3 \<Rightarrow> real \<Rightarrow> vec3" where
  \<comment> \<open>Modelled from the spec: \<open>Vector3.setLength\<close> is library code outside the repository;
      the spec's "rescaling the existing view vector's length" is read as the library's
      \<open>normalize().multiplyScalar(l)\<close>, where normalising divides by \<open>length() || 1\<close>.\<close>
  "setLength p l =
     (let n = vlength p; d = (if n = 0 then 1 else n)
      in multiplyScalar (multiplyScalar p (1 / d)) l)"

definition lerpVectors :: "vec3 \<Rightarrow> vec3 \<Rightarrow> real \<Rightarrow> vec3" where
  \<comment> \<open>Modelled from the spec: \<open>Vector3.lerpVectors\<close> is library code outside the repository;
      it is the spec's \<open>lerp(scatterPos, formationPos, progress)\<close>, componentwise
      \<open>v1 + (v2 - v1) * alpha\<close>.\<close>
  "lerpVectors v1 v2 alpha =
     Vector3 (vx v1 + (vx v2 - vx v1) * alpha)
             (vy v1 + (vy v2 - vy v1) * alpha)
             (vz v1 + (vz v2 - vz v1) * alpha)"

definition mix :: "real \<Rightarrow> real \<Rightarrow> real \<Rightarrow> real" where
  \<comment> \<open>the GLSL builtin \<open>mix(x, y, a) = x * (1 - a) + y * a\<close>\<close>
  "mix x y a = x * (1 - a) + y * a"

definition mix3 :: "vec3 \<Rightarrow> vec3 \<Rightarrow> real \<Rightarrow> vec3" where
  "mix3 p q a = Vector3 (mix (vx p) (vx q) a) (mix (vy p) (vy q) a) (mix (vz p) (vz q) a)"

section \<open>Transition controller: the damped progress of each subsystem\<close>

text \<open>
  Foliage, MagicSpiral, Ornaments, StarTop and GingerbreadMan each keep a \<open>progress\<close> ref
  and run, once per frame,
  \<^verbatim>\<open>damp(progress, 'current', isTree ? 1 : 0, dampSpeed, delta)\<close>
  with \<open>dampSpeed = isTree ? 1.0 : 2.5\<close> (GingerbreadMan: \<open>isTree ? 1.0 : 2.0\<close>). The frame
  delta is handed over as it arrives.
\<close>

datatype subsystem = Foliage | MagicSpiral | Ornaments | StarTop | GingerbreadMan

definition dampSpeed :: "subsystem \<Rightarrow> TreeState \<Rightarrow> real" where
  "dampSpeed sub treeState =
     (if treeState = TREE_SHAPE then 1.0
      else if sub = GingerbreadMan then 2.0 else 2.5)"

record damp_call =
  call_target :: real
  call_speed :: real
  call_delta :: real

definition progress_call :: "subsystem \<Rightarrow> TreeState \<Rightarrow> real \<Rightarrow> damp_call" where
  \<comment> \<open>the arguments of the \<open>damp\<close> call in the subsystem's frame callback\<close>
  "progress_call sub treeState delta =
     \<lparr>call_target = (if treeState = TREE_SHAPE then 1 else 0),
      call_speed = dampSpeed sub treeState,
      call_delta = delta\<rparr>"

definition damp :: "real \<Rightarrow> real \<Rightarrow> real \<Rightarrow> real \<Rightarrow> real" where
  \<comment> \<open>Modelled from the spec: \<open>damp\<close> is imported from the package \<open>maath/easing\<close>, which is
      not among the repository's files. The spec gives the update
      \<open>progress += (target - progress) * (1 - e^(-rate * dt))\<close>, the fourth argument of the
      call being the rate, as the comments at the call sites read it.\<close>
  "damp current target rate delta =
     current + (target - current) * (1 - exp (- rate * delta))"

definition progress_frame :: "subsystem \<Rightarrow> TreeState \<Rightarrow> real \<Rightarrow> real \<Rightarrow> real" where
  "progress_frame sub treeState delta p =
     (let c = progress_call sub treeState delta
      in damp p (call_target c) (call_speed c) (call_delta c))"

fun progress_run :: "subsystem \<Rightarrow> TreeState \<Rightarrow> real list \<Rightarrow> real \<Rightarrow> real" where
  \<comment> \<open>successive frames with the deltas of the list, the mode unchanged\<close>
  "progress_run sub treeState [] p = p"
| "progress_run sub treeState (delta # deltas) p =
     progress_run sub treeState deltas (progress_frame sub treeState delta p)"

section \<open>Blended positions of the subsystems\<close>

record OrnamentData =
  scatterPos :: vec3
  treePos :: vec3
  rotationSpeed :: vec3
  baseScale :: real
  phase :: real

definition ornament_position :: "OrnamentData \<Rightarrow> real \<Rightarrow> real \<Rightarrow> vec3" where
  \<comment> \<open>Ornaments, per instance: \<open>lerpVectors\<close>, then the floating offsets on y and x\<close>
  "ornament_position item p time =
     (let currentPos = lerpVectors (scatterPos item) (treePos item) p;
          floatAmp = 0.2 * (1 - p) + 0.05 * p;
          floatY = sin (time * 0.5 + phase item) * floatAmp;
          floatX = cos (time * 0.3 + phase item) * (floatAmp * 0.5)
      in Vector3 (vx currentPos + floatX) (vy currentPos + floatY) (vz currentPos))"

definition star_position :: "vec3 \<Rightarrow> vec3 \<Rightarrow> real \<Rightarrow> real \<Rightarrow> vec3" where
  \<comment> \<open>StarTop: \<open>lerpVectors\<close>, then the hovering offset on y\<close>
  "star_position sPos tPos p time =
     (let currentPos = lerpVectors sPos tPos p
      in Vector3 (vx currentPos) (vy currentPos + sin (time * 2) * 0.1) (vz currentPos))"

definition spiral_position :: "vec3 \<Rightarrow> vec3 \<Rightarrow> nat \<Rightarrow> real \<Rightarrow> real \<Rightarrow> vec3" where
  \<comment> \<open>MagicSpiral, particle \<open>i\<close>: the blend is written out in the loop body\<close>
  "spiral_position s t i p time =
     (let wave = sin (time * 1.0 + real i * 0.2) * 0.1 * p
      in Vector3 (vx s + (vx t - vx s) * p)
                 (vy s + (vy t - vy s) * p + wave)
                 (vz s + (vz t - vz s) * p))"

definition foliage_position :: "vec3 \<Rightarrow> vec3 \<Rightarrow> real \<Rightarrow> real \<Rightarrow> real \<Rightarrow> vec3" where
  \<comment> \<open>Foliage, vertex shader: \<open>finalPos = targetPos + movement\<close>\<close>
  "foliage_position aScatterPos aTreePos aRandom uProgress uTime =
     (let targetPos = mix3 aScatterPos aTreePos uProgress;
          breathe = sin (uTime * 1.5 + aRandom * 10.0) * 0.1;
          chaotic = sin (uTime * 0.5 + aRandom * 5.0) * 0.5;
          movement = multiplyScalar (Vector3 0.0 1.0 0.0) (mix chaotic breathe uProgress)
      in Vector3 (vx targetPos + vx movement) (vy targetPos + vy movement)
                 (vz targetPos + vz movement))"

definition vadd :: "vec3 \<Rightarrow> vec3 \<Rightarrow> vec3" where
  \<comment> \<open>\<open>Vector3.add\<close>, componentwise\<close>
  "vadd a b = Vector3 (vx a + vx b) (vy a + vy b) (vz a + vz b)"

definition gingerbread_position ::
    "vec3 \<Rightarrow> vec3 \<Rightarrow> real \<Rightarrow> real \<Rightarrow> vec3 \<Rightarrow> vec3 \<Rightarrow> vec3" where
  \<comment> \<open>GingerbreadMan: the tree/scatter blend, blended again toward the point 5 units in
      front of the camera by the mode factor \<open>m\<close>; \<open>cameraDir\<close> is the camera's world
      direction\<close>
  "gingerbread_position sPos tPos p m cameraPos cameraDir =
     (let normalPos = lerpVectors sPos tPos p;
          frontPos = vadd cameraPos (multiplyScalar cameraDir 5);
          currentPos = lerpVectors normalPos frontPos m
      in currentPos)"

section \<open>Camera range controller (Experience)\<close>

definition safeDelta :: "real \<Rightarrow> real" where
  "safeDelta delta = min delta 0.1"

definition targetDist :: "TreeState \<Rightarrow> real" where
  "targetDist treeState = (if treeState = TREE_SHAPE then 33 else 5)"

definition camera_frame :: "TreeState \<Rightarrow> real \<Rightarrow> vec3 \<Rightarrow> vec3" where
  \<comment> \<open>the new \<open>camera.position\<close>; a real is never NaN, so that test is always passed\<close>
  "camera_frame treeState delta position =
     (let currentLen = vlength position;
          diff = targetDist treeState - currentLen;
          move = diff * safeDelta delta * 2.5
      in if \<bar>diff\<bar> > 0.1 then
           (let newLen = currentLen + move
            in if newLen > 0.1 then setLength position newLen else position)
         else position)"

section \<open>Burst scheduler (the rotation-burst effect of Ornaments and StarTop)\<close>

text \<open>
  The effect depends on \<open>treeState\<close> alone: the framework runs it at mount and after a
  render in which \<open>treeState\<close> changed, and before running it again it runs the clean-up
  the previous run returned. Time is a clock in milliseconds; a pending timeout fires when
  the clock reaches its due time.
\<close>

text \<open>
  \<open>burstRef\<close> is the ref the frame callback reads; \<open>timers\<close> are the pending timeouts,
  each with its id and due time; \<open>cleanup\<close> is the timeout id that the clean-up returned
  by the last run of the effect will clear (none after a run in TREE_SHAPE); \<open>mode\<close> is
  the \<open>treeState\<close> of the last render.
\<close>

record burst_state =
  burstRef :: real
  timers :: "(nat \<times> nat) list"
  nextTimer :: nat
  cleanup :: "nat option"
  now :: nat
  mode :: TreeState

datatype event = Render TreeState | Elapse nat

definition clearTimeout :: "nat \<Rightarrow> burst_state \<Rightarrow> burst_state" where
  "clearTimeout t s = s\<lparr>timers := filter (\<lambda>(i, due). i \<noteq> t) (timers s)\<rparr>"

definition run_cleanup :: "burst_state \<Rightarrow> burst_state" where
  "run_cleanup s =
     (case cleanup s of
        None \<Rightarrow> s
      | Some t \<Rightarrow> (clearTimeout t s)\<lparr>cleanup := None\<rparr>)"

definition burst_effect :: "TreeState \<Rightarrow> burst_state \<Rightarrow> burst_state" where
  "burst_effect treeState s =
     (if treeState = SCATTERED then
        s\<lparr>burstRef := 2.0,
          timers := timers s @ [(nextTimer s, now s + 3000)],
          nextTimer := Suc (nextTimer s),
          cleanup := Some (nextTimer s)\<rparr>
      else s\<lparr>burstRef := 1.0, cleanup := None\<rparr>)"

definition mount :: "TreeState \<Rightarrow> burst_state" where
  "mount treeState =
     burst_effect treeState
       \<lparr>burstRef = 1.0, timers = [], nextTimer = 0, cleanup = None, now = 0,
        mode = treeState\<rparr>"

definition render :: "TreeState \<Rightarrow> burst_state \<Rightarrow> burst_state" where
  "render treeState s =
     (if treeState = mode s then s
      else burst_effect treeState ((run_cleanup s)\<lparr>mode := treeState\<rparr>))"

definition elapse :: "nat \<Rightarrow> burst_state \<Rightarrow> burst_state" where
  "elapse d s =
     (let t = now s + d;
          fired = filter (\<lambda>(i, due). due \<le> t) (timers s)
      in s\<lparr>now := t,
           timers := filter (\<lambda>(i, due). \<not> due \<le> t) (timers s),
           burstRef := (if fired = [] then burstRef s else 1.0)\<rparr>)"

fun step :: "event \<Rightarrow> burst_state \<Rightarrow> burst_state" where
  "step (Render treeState) s = render treeState s"
| "step (Elapse d) s = elapse d s"

fun run :: "burst_state \<Rightarrow> event list \<Rightarrow> burst_state" where
  "run s [] = s"
| "run s (e # es) = run (step e s) es"

text \<open>
  The invariant of the scheduler: either no timeout is pending and the multiplier is 1, or
  exactly one is pending, the multiplier is 2, the mode is SCATTERED and the clean-up of
  the last effect holds that timeout's id.
\<close>

definition burst_inv :: "burst_state \<Rightarrow> bool" where
  "burst_inv s =
     ((timers s = [] \<and> burstRef s = 1 \<and> (mode s = TREE_SHAPE \<longrightarrow> cleanup s = None))
      \<or> (\<exists>i due. timers s = [(i, due)] \<and> burstRef s = 2 \<and> mode s = SCATTERED
                  \<and> cleanup s = Some i))"

section \<open>Properties of the point generators\<close>

lemma unit_drawsD: "unit_draws g \<Longrightarrow> 0 \<le> g n \<and> g n < 1"
  by (simp add: unit_draws_def)

lemma getTreeSpiralPoint_coords:
  "fst (getTreeSpiralPoint t R H turns jitter g) =
     Vector3 (cos (t * pi * 2 * turns) * (R * (1 - t)) + (g 0 - 0.5) * jitter)
             ((t - 0.5) * H + (g 1 - 0.5) * jitter)
             (sin (t * pi * 2 * turns) * (R * (1 - t)) + (g 2 - 0.5) * jitter)"
  by (simp add: getTreeSpiralPoint_def random_def Let_def numeral_2_eq_2)

lemma vlength_sphere:
  assumes "0 \<le> r"
  shows "vlength (Vector3 (r * sin p * cos th) (r * sin p * sin th) (r * cos p)) = r"
proof -
  have cs: "cos th * cos th + sin th * sin th = 1" "sin p * sin p + cos p * cos p = 1"
    using sin_cos_squared_add2 [of th] sin_cos_squared_add [of p]
    by (simp_all add: power2_eq_square)
  have "(r * sin p * cos th) * (r * sin p * cos th) + (r * sin p * sin th) * (r * sin p * sin th)
        + (r * cos p) * (r * cos p)
        = r * r * (sin p * sin p * (cos th * cos th + sin th * sin th) + cos p * cos p)"
    by (simp only: algebra_simps)
  also have "\<dots> = r * r"
    by (simp only: cs mult_1_right)
  finally show ?thesis
    using assms by (simp add: vlength_def)
qed

lemma getRandomSpherePoint_point:
  "fst (getRandomSpherePoint radius g) =
     Vector3 (root 3 (g 2) * radius * sin (arccos (2 * g 1 - 1)) * cos (2 * pi * g 0))
             (root 3 (g 2) * radius * sin (arccos (2 * g 1 - 1)) * sin (2 * pi * g 0))
             (root 3 (g 2) * radius * cos (arccos (2 * g 1 - 1)))"
  by (simp add: getRandomSpherePoint_def random_def Let_def numeral_2_eq_2)

lemma horizontal_radius:
  "sqrt ((c * cos a) * (c * cos a) + (c * sin a) * (c * sin a)) = \<bar>c\<bar>"
proof -
  have "(c * cos a) * (c * cos a) + (c * sin a) * (c * sin a)
        = c * c * (cos a * cos a + sin a * sin a)"
    by (simp only: algebra_simps)
  also have "\<dots> = c * c"
    using sin_cos_squared_add2 [of a] by (simp add: power2_eq_square)
  finally show ?thesis by simp
qed

lemma jitter_term_bound:
  fixes j r :: real
  assumes "0 \<le> j" and "0 \<le> r" and "r < 1"
  shows "\<bar>(r - 0.5) * j\<bar> \<le> j / 2"
proof -
  have "\<bar>r - 0.5\<bar> \<le> 1 / 2"
    using assms(2,3) by linarith
  then have "\<bar>r - 0.5\<bar> * j \<le> 1 / 2 * j"
    using assms(1) by (rule mult_right_mono)
  then show ?thesis
    using assms(1) by (simp add: abs_mult)
qed

subsection \<open>normalize\<close>

text \<open>
  Claim C2, as the code has it: \<open>normalize(value, max, min)\<close> returns
  \<open>(value - min) / (max - min)\<close> whenever \<open>max \<noteq> min\<close>, so \<open>normalize(5, 10, 0) = 0.5\<close>
  and \<open>normalize(0, 10, 0) = 0\<close>. It never fails: for \<open>max = min\<close> the division by zero is
  returned as a value, plus infinity when \<open>value > min\<close>, minus infinity when
  \<open>value < min\<close>, and NaN when \<open>value = min\<close>.
\<close>

theorem normalize_never_fails:
  "normalize v mx mn =
     Inr (if mx \<noteq> mn then Finite ((v - mn) / (mx - mn))
          else if mn < v then PosInfinity
          else if v < mn then NegInfinity
          else NaN)
   \<and> normalize 5 10 0 = Inr (Finite 0.5)
   \<and> normalize 0 10 0 = Inr (Finite 0)"
proof -
  have g: "normalize v mx mn =
     Inr (if mx \<noteq> mn then Finite ((v - mn) / (mx - mn))
          else if mn < v then PosInfinity
          else if v < mn then NegInfinity
          else NaN)"
    by (simp add: normalize_def js_div_def)
  have a: "normalize 5 10 0 = Inr (Finite 0.5)"
    by (simp add: normalize_def js_div_def)
  have b: "normalize 0 10 0 = Inr (Finite 0)"
    by (simp add: normalize_def js_div_def)
  show ?thesis using g a b by blast
qed

text \<open>
  The claim's second half fails on the code: \<open>normalize(5, 3, 3)\<close> is not rejected with a
  domain error, it returns plus infinity.
\<close>

theorem normalize_equal_bounds_counterexample:
  "normalize 5 3 3 = Inr PosInfinity \<and> normalize 5 3 3 \<noteq> Inl DomainError"
  by (simp add: normalize_def js_div_def)

subsection \<open>The formation curve\<close>

text \<open>
  Claim C3: for every \<open>t\<close> in \<open>[0, 1]\<close> and all \<open>R\<close>, \<open>H\<close> and \<open>turns\<close>, the
  formation-curve generator called with jitter 0 returns exactly the point with
  \<open>y = (t - 0.5) * H\<close>, \<open>x = R * (1 - t) * cos (2 * pi * turns * t)\<close> and
  \<open>z = R * (1 - t) * sin (2 * pi * turns * t)\<close>, whatever the random source draws; its
  horizontal radius is \<open>R * (1 - t)\<close> in absolute value, so it is largest at \<open>t = 0\<close> and
  zero at \<open>t = 1\<close>.
\<close>

theorem spiral_point_zero_jitter:
  assumes "0 \<le> t" and "t \<le> 1"
  shows "fst (getTreeSpiralPoint t R H turns 0 g) =
           Vector3 (R * (1 - t) * cos (2 * pi * turns * t))
                   ((t - 0.5) * H)
                   (R * (1 - t) * sin (2 * pi * turns * t))
       \<and> sqrt (vx (fst (getTreeSpiralPoint t R H turns 0 g)) *
               vx (fst (getTreeSpiralPoint t R H turns 0 g)) +
               vz (fst (getTreeSpiralPoint t R H turns 0 g)) *
               vz (fst (getTreeSpiralPoint t R H turns 0 g))) = \<bar>R\<bar> * (1 - t)"
proof -
  have a: "t * pi * 2 * turns = 2 * pi * turns * t"
    by simp
  have p: "fst (getTreeSpiralPoint t R H turns 0 g) =
           Vector3 (R * (1 - t) * cos (2 * pi * turns * t))
                   ((t - 0.5) * H)
                   (R * (1 - t) * sin (2 * pi * turns * t))"
    unfolding getTreeSpiralPoint_coords a by simp
  have "sqrt ((R * (1 - t) * cos (2 * pi * turns * t)) * (R * (1 - t) * cos (2 * pi * turns * t))
            + (R * (1 - t) * sin (2 * pi * turns * t)) * (R * (1 - t) * sin (2 * pi * turns * t)))
        = \<bar>R * (1 - t)\<bar>"
    by (rule horizontal_radius)
  also have "\<dots> = \<bar>R\<bar> * (1 - t)"
    using assms(2) by (simp add: abs_mult)
  finally show ?thesis
    unfolding p by simp
qed

theorem spiral_point_zero_jitter_witness:
  "(0::real) \<le> 1 \<and> (1::real) \<le> 1
   \<and> fst (getTreeSpiralPoint 1 6 14 15 0 (\<lambda>n. 1 / 8)) = Vector3 0 7 0
   \<and> fst (getTreeSpiralPoint 0 6 14 15 0 (\<lambda>n. 1 / 8)) = Vector3 6 (- 7) 0"
  using spiral_point_zero_jitter [of 1 6 14 15 "\<lambda>n. 1 / 8"]
        spiral_point_zero_jitter [of 0 6 14 15 "\<lambda>n. 1 / 8"]
  by simp

text \<open>
  Claim C10: for every \<open>t\<close>, \<open>maxRadius\<close>, \<open>height\<close> and \<open>spirals\<close>, every jitter
  \<open>\<ge> 0\<close> and every sequence of draws in \<open>[0, 1)\<close>, each coordinate of the returned point
  differs from the same coordinate of the ideal helix point by at most \<open>jitter / 2\<close>.
\<close>

theorem spiral_point_jitter_bound:
  assumes "0 \<le> jitter" and "unit_draws g"
  shows "\<bar>vx (fst (getTreeSpiralPoint t maxRadius height spirals jitter g))
          - maxRadius * (1 - t) * cos (2 * pi * spirals * t)\<bar> \<le> jitter / 2
       \<and> \<bar>vy (fst (getTreeSpiralPoint t maxRadius height spirals jitter g))
          - (t - 0.5) * height\<bar> \<le> jitter / 2
       \<and> \<bar>vz (fst (getTreeSpiralPoint t maxRadius height spirals jitter g))
          - maxRadius * (1 - t) * sin (2 * pi * spirals * t)\<bar> \<le> jitter / 2"
proof -
  have a: "t * pi * 2 * spirals = 2 * pi * spirals * t"
    by simp
  have b: "\<bar>(g n - 0.5) * jitter\<bar> \<le> jitter / 2" for n
    using assms unit_drawsD [of g n] by (intro jitter_term_bound) simp_all
  show ?thesis
    unfolding getTreeSpiralPoint_coords a
    using b [of 0] b [of 1] b [of 2] by (simp add: mult.commute)
qed

theorem spiral_point_jitter_bound_witness:
  "(0::real) \<le> 1 \<and> unit_draws (\<lambda>n. 0)
   \<and> \<bar>vx (fst (getTreeSpiralPoint 0 6 14 15 1 (\<lambda>n. 0))) - 6\<bar> \<le> 1 / 2
   \<and> vy (fst (getTreeSpiralPoint 0 6 14 15 1 (\<lambda>n. 0))) = - 7 - 1 / 2"
proof -
  have u: "unit_draws (\<lambda>n. 0)"
    by (simp add: unit_draws_def)
  have v: "vy (fst (getTreeSpiralPoint 0 6 14 15 1 (\<lambda>n. 0))) = - 7 - 1 / 2"
    by (simp add: getTreeSpiralPoint_coords)
  show ?thesis
    using spiral_point_jitter_bound
            [where jitter = 1 and g = "\<lambda>n. 0" and t = 0 and maxRadius = 6 and height = 14
               and spirals = 15] u v by simp
qed

subsection \<open>The sphere-volume sampler\<close>

text \<open>
  Claim C4: for every radius \<open>r > 0\<close> and every sequence of draws in \<open>[0, 1)\<close>, the point
  returned by the sphere-volume sampler has Euclidean norm at most \<open>r\<close>, and that norm
  is the cube root of the third draw times \<open>r\<close> (the volumetric-uniform method), not
  the draw itself times \<open>r\<close>.
\<close>

theorem sphere_point_within_radius:
  assumes "0 < radius" and "unit_draws g"
  shows "vlength (fst (getRandomSpherePoint radius g)) = root 3 (g 2) * radius
       \<and> vlength (fst (getRandomSpherePoint radius g)) \<le> radius"
proof -
  have w: "0 \<le> g 2" "g 2 < 1"
    using assms(2) by (simp_all add: unit_draws_def)
  have r0: "0 \<le> root 3 (g 2)"
    using w(1) by simp
  have "root 3 (g 2) < root 3 1"
    using w(2) by (simp only: real_root_less_iff [of 3] zero_less_numeral)
  then have r1: "root 3 (g 2) \<le> 1"
    by simp
  have len: "vlength (fst (getRandomSpherePoint radius g)) = root 3 (g 2) * radius"
    unfolding getRandomSpherePoint_point
    using r0 assms(1) by (intro vlength_sphere) simp
  have "root 3 (g 2) * radius \<le> 1 * radius"
    using r1 assms(1) by (intro mult_right_mono) simp_all
  with len show ?thesis by simp
qed

theorem sphere_point_witness:
  "(0::real) < 2 \<and> unit_draws (\<lambda>n. 1 / 8)
   \<and> vlength (fst (getRandomSpherePoint 2 (\<lambda>n. 1 / 8))) = 1
   \<and> vlength (fst (getRandomSpherePoint 2 (\<lambda>n. 1 / 8))) \<noteq> 1 / 8 * 2"
proof -
  have u: "unit_draws (\<lambda>n. 1 / 8)"
    by (simp add: unit_draws_def)
  have c: "root 3 (1 / 8 :: real) = 1 / 2"
  proof -
    have "root 3 ((1 / 2 :: real) ^ 3) = 1 / 2"
      by (rule real_root_power_cancel) simp_all
    then show ?thesis by (simp add: power3_eq_cube)
  qed
  show ?thesis
    using sphere_point_within_radius [of 2 "\<lambda>n. 1 / 8"] u c by simp
qed

section \<open>Properties of the transition controller\<close>

lemma progress_frame_tree:
  "progress_frame sub TREE_SHAPE dt p = 1 - (1 - p) * exp (- dt)"
  by (simp add: progress_frame_def progress_call_def dampSpeed_def damp_def algebra_simps)

lemma progress_frame_scattered:
  "progress_frame sub SCATTERED dt p = p * exp (- (dampSpeed sub SCATTERED * dt))"
  by (simp add: progress_frame_def progress_call_def damp_def algebra_simps)

lemma dampSpeed_scattered: "1 < dampSpeed sub SCATTERED"
  by (simp add: dampSpeed_def)

lemma progress_run_tree:
  "progress_run sub TREE_SHAPE dts p = 1 - (1 - p) * exp (- sum_list dts)"
proof (induction dts arbitrary: p)
  case Nil
  show ?case by simp
next
  case (Cons d dts)
  have "progress_run sub TREE_SHAPE (d # dts) p
        = 1 - ((1 - p) * exp (- d)) * exp (- sum_list dts)"
    by (simp add: Cons.IH progress_frame_tree)
  also have "\<dots> = 1 - (1 - p) * (exp (- d) * exp (- sum_list dts))"
    by (simp only: mult.assoc)
  also have "exp (- d) * exp (- sum_list dts) = exp (- sum_list (d # dts))"
    by (simp add: exp_add [symmetric])
  finally show ?case .
qed

lemma progress_run_scattered:
  "progress_run sub SCATTERED dts p = p * exp (- (dampSpeed sub SCATTERED * sum_list dts))"
proof (induction dts arbitrary: p)
  case Nil
  show ?case by simp
next
  case (Cons d dts)
  have "progress_run sub SCATTERED (d # dts) p
        = (p * exp (- (dampSpeed sub SCATTERED * d)))
            * exp (- (dampSpeed sub SCATTERED * sum_list dts))"
    by (simp add: Cons.IH progress_frame_scattered)
  also have "\<dots> = p * (exp (- (dampSpeed sub SCATTERED * d))
                       * exp (- (dampSpeed sub SCATTERED * sum_list dts)))"
    by (simp only: mult.assoc)
  also have "exp (- (dampSpeed sub SCATTERED * d))
               * exp (- (dampSpeed sub SCATTERED * sum_list dts))
             = exp (- (dampSpeed sub SCATTERED * sum_list (d # dts)))"
    by (simp add: exp_add [symmetric] algebra_simps)
  finally show ?case .
qed

lemma sum_list_replicate_real: "sum_list (replicate n (d::real)) = real n * d"
  by (induction n) (simp_all add: algebra_simps)

lemma exp_neg_steps:
  fixes c :: real
  assumes "0 < c"
  shows "exp (- (real (Suc n) * c)) < exp (- (real n * c))"
    and "(\<lambda>n. exp (- (real n * c))) \<longlonglongrightarrow> 0"
proof -
  show "exp (- (real (Suc n) * c)) < exp (- (real n * c))"
    using assms by (simp add: algebra_simps)
  have q: "0 \<le> exp (- c)" "exp (- c) < 1"
    using assms by simp_all
  have "(\<lambda>n. exp (- c) ^ n) \<longlonglongrightarrow> 0"
    using q by (rule LIMSEQ_realpow_zero)
  moreover have "exp (- c) ^ n = exp (- (real n * c))" for n
    by (simp add: exp_of_nat_mult [symmetric])
  ultimately show "(\<lambda>n. exp (- (real n * c))) \<longlonglongrightarrow> 0"
    by simp
qed

lemma positive_sum_list:
  fixes ds :: "real list"
  assumes "ds \<noteq> []" and "\<forall>d \<in> set ds. 0 < d"
  shows "0 < sum_list ds"
  using assms by (induction ds) (auto intro: add_pos_nonneg sum_list_nonneg less_imp_le)

text \<open>
  Claim C1, for the smoothing update the spec describes: in every subsystem, starting at
  progress 0 with target 1 and advancing repeatedly with a fixed positive \<open>dt\<close>, the
  progress sequence is strictly increasing, never exceeds 1 and converges to 1;
  starting at 1 with target 0 it is strictly decreasing, never goes below 0 and converges
  to 0; and from any progress in \<open>[0, 1]\<close> one frame moves progress toward the current
  target and not past it.
\<close>

theorem progress_monotone_convergent:
  assumes "0 < dt"
  shows "(\<forall>n. progress_run sub TREE_SHAPE (replicate n dt) 0
               < progress_run sub TREE_SHAPE (replicate (Suc n) dt) 0)
       \<and> (\<forall>n. progress_run sub TREE_SHAPE (replicate n dt) 0 \<le> 1)
       \<and> (\<lambda>n. progress_run sub TREE_SHAPE (replicate n dt) 0) \<longlonglongrightarrow> 1
       \<and> (\<forall>n. progress_run sub SCATTERED (replicate (Suc n) dt) 1
               < progress_run sub SCATTERED (replicate n dt) 1)
       \<and> (\<forall>n. 0 \<le> progress_run sub SCATTERED (replicate n dt) 1)
       \<and> (\<lambda>n. progress_run sub SCATTERED (replicate n dt) 1) \<longlonglongrightarrow> 0
       \<and> (\<forall>p d. 0 \<le> p \<and> p \<le> 1 \<and> 0 < d \<longrightarrow>
              p \<le> progress_frame sub TREE_SHAPE d p \<and> progress_frame sub TREE_SHAPE d p \<le> 1
            \<and> 0 \<le> progress_frame sub SCATTERED d p \<and> progress_frame sub SCATTERED d p \<le> p)"
proof -
  define r where "r = dampSpeed sub SCATTERED"
  have r: "0 < r * dt"
    using assms dampSpeed_scattered [of sub] by (simp add: r_def)
  have up: "progress_run sub TREE_SHAPE (replicate n dt) 0 = 1 - exp (- (real n * dt))" for n
    by (simp add: progress_run_tree sum_list_replicate_real)
  have down: "progress_run sub SCATTERED (replicate n dt) 1 = exp (- (real n * (r * dt)))" for n
    by (simp add: progress_run_scattered sum_list_replicate_real r_def algebra_simps)
  have c1: "\<forall>n. progress_run sub TREE_SHAPE (replicate n dt) 0
               < progress_run sub TREE_SHAPE (replicate (Suc n) dt) 0"
    unfolding up using exp_neg_steps(1) [OF assms] by simp
  have c2: "\<forall>n. progress_run sub TREE_SHAPE (replicate n dt) 0 \<le> 1"
    unfolding up by simp
  have "(\<lambda>n. 1 - exp (- (real n * dt))) \<longlonglongrightarrow> 1 - 0"
    by (intro tendsto_diff tendsto_const exp_neg_steps(2) [OF assms])
  then have c3: "(\<lambda>n. progress_run sub TREE_SHAPE (replicate n dt) 0) \<longlonglongrightarrow> 1"
    unfolding up by simp
  have c4: "\<forall>n. progress_run sub SCATTERED (replicate (Suc n) dt) 1
               < progress_run sub SCATTERED (replicate n dt) 1"
    unfolding down using exp_neg_steps(1) [OF r] by simp
  have c5: "\<forall>n. 0 \<le> progress_run sub SCATTERED (replicate n dt) 1"
    unfolding down by simp
  have c6: "(\<lambda>n. progress_run sub SCATTERED (replicate n dt) 1) \<longlonglongrightarrow> 0"
    unfolding down by (rule exp_neg_steps(2) [OF r])
  have c7: "p \<le> progress_frame sub TREE_SHAPE d p \<and> progress_frame sub TREE_SHAPE d p \<le> 1
            \<and> 0 \<le> progress_frame sub SCATTERED d p \<and> progress_frame sub SCATTERED d p \<le> p"
    if h: "0 \<le> p \<and> p \<le> 1 \<and> 0 < d" for p d
  proof -
    have e: "exp (- d) \<le> 1" "0 \<le> exp (- d)"
      using h by simp_all
    have f: "exp (- (dampSpeed sub SCATTERED * d)) \<le> 1"
      using h dampSpeed_scattered [of sub] by simp
    have "(1 - p) * exp (- d) \<le> (1 - p) * 1"
      using h e by (intro mult_left_mono) simp_all
    moreover have "0 \<le> (1 - p) * exp (- d)"
      using h by simp
    moreover have "p * exp (- (dampSpeed sub SCATTERED * d)) \<le> p * 1"
      using h f by (intro mult_left_mono) simp_all
    moreover have "0 \<le> p * exp (- (dampSpeed sub SCATTERED * d))"
      using h by simp
    ultimately show ?thesis
      unfolding progress_frame_tree progress_frame_scattered by simp
  qed
  from c1 c2 c3 c4 c5 c6 c7 show ?thesis by blast
qed

theorem progress_monotone_convergent_witness:
  "(0::real) < 1
   \<and> progress_run Foliage TREE_SHAPE [] 0 < progress_run Foliage TREE_SHAPE [1] 0
   \<and> progress_run Foliage TREE_SHAPE [1] 0 \<le> 1
   \<and> progress_run Foliage SCATTERED [1] 1 < progress_run Foliage SCATTERED [] 1
   \<and> 0 \<le> progress_frame Foliage SCATTERED 1 (1 / 2)
   \<and> progress_frame Foliage SCATTERED 1 (1 / 2) \<le> 1 / 2"
proof -
  have t: "(0::real) < 1" by simp
  note th = progress_monotone_convergent [OF t, of Foliage]
  have a: "progress_run Foliage TREE_SHAPE (replicate 0 1) 0
           < progress_run Foliage TREE_SHAPE (replicate (Suc 0) 1) 0"
    using th by blast
  have b: "progress_run Foliage TREE_SHAPE (replicate (Suc 0) 1) 0 \<le> 1"
    using th by blast
  have c: "progress_run Foliage SCATTERED (replicate (Suc 0) 1) 1
           < progress_run Foliage SCATTERED (replicate 0 1) 1"
    using th by blast
  have "(0::real) \<le> 1 / 2 \<and> (1 / 2 :: real) \<le> 1 \<and> (0::real) < 1"
    by simp
  with th have d: "0 \<le> progress_frame Foliage SCATTERED 1 (1 / 2)
                 \<and> progress_frame Foliage SCATTERED 1 (1 / 2) \<le> 1 / 2"
    by blast
  from a b c d show ?thesis by simp
qed

text \<open>
  Claim C8, for the smoothing update the spec describes: the rate is 1.0 toward 1 and 2.5
  toward 0 (2.0 for the gingerbread man), and for every subsystem, from an equal positive
  distance to the target and with the same sequence of positive frame deltas, after each
  step the dispersing progress is strictly closer to 0 than the assembling progress is
  to 1.
\<close>

theorem dispersal_faster_than_assembly:
  assumes "0 < k" and "k \<le> length dts" and "\<forall>d \<in> set dts. 0 < d"
    and "0 < gap" and "gap \<le> 1"
  shows "dampSpeed sub TREE_SHAPE = 1.0
       \<and> dampSpeed sub SCATTERED = (if sub = GingerbreadMan then 2.0 else 2.5)
       \<and> \<bar>progress_run sub SCATTERED (take k dts) gap - 0\<bar>
           < \<bar>1 - progress_run sub TREE_SHAPE (take k dts) (1 - gap)\<bar>"
proof -
  have speeds: "dampSpeed sub TREE_SHAPE = 1.0"
    "dampSpeed sub SCATTERED = (if sub = GingerbreadMan then 2.0 else 2.5)"
    by (simp_all add: dampSpeed_def)
  have ne: "take k dts \<noteq> []"
    using assms(1,2) by auto
  have pos: "\<forall>d \<in> set (take k dts). 0 < d"
    using assms(3) by (auto dest: in_set_takeD)
  have s: "0 < sum_list (take k dts)"
    using ne pos by (rule positive_sum_list)
  have "sum_list (take k dts) * 1 < sum_list (take k dts) * dampSpeed sub SCATTERED"
    using s dampSpeed_scattered [of sub] by (intro mult_strict_left_mono)
  then have "exp (- (dampSpeed sub SCATTERED * sum_list (take k dts)))
             < exp (- sum_list (take k dts))"
    by (simp add: mult.commute)
  then have "gap * exp (- (dampSpeed sub SCATTERED * sum_list (take k dts)))
             < gap * exp (- sum_list (take k dts))"
    using assms(4) by (intro mult_strict_left_mono)
  moreover have "0 \<le> gap * exp (- (dampSpeed sub SCATTERED * sum_list (take k dts)))"
    using assms(4) by simp
  moreover have "0 \<le> gap * exp (- sum_list (take k dts))"
    using assms(4) by simp
  ultimately have "\<bar>progress_run sub SCATTERED (take k dts) gap - 0\<bar>
           < \<bar>1 - progress_run sub TREE_SHAPE (take k dts) (1 - gap)\<bar>"
    unfolding progress_run_tree progress_run_scattered by simp
  with speeds show ?thesis by blast
qed

theorem dispersal_faster_than_assembly_witness:
  "(0::nat) < 1 \<and> (1::nat) \<le> length [1 / 60, 1 / 30 :: real]
   \<and> (0::real) < 1 \<and> (1::real) \<le> 1
   \<and> \<bar>progress_run Ornaments SCATTERED [1 / 60] 1 - 0\<bar>
       < \<bar>1 - progress_run Ornaments TREE_SHAPE [1 / 60] 0\<bar>"
  using dispersal_faster_than_assembly [of 1 "[1 / 60, 1 / 30]" 1 Ornaments]
  by simp

section \<open>Properties of the camera range controller\<close>

lemma vlength_nonneg: "0 \<le> vlength p"
  by (simp add: vlength_def)

lemma vlength_multiplyScalar: "vlength (multiplyScalar p k) = \<bar>k\<bar> * vlength p"
proof -
  have "vx p * k * (vx p * k) + vy p * k * (vy p * k) + vz p * k * (vz p * k)
        = (k * k) * (vx p * vx p + vy p * vy p + vz p * vz p)"
    by (simp only: algebra_simps)
  then show ?thesis
    by (simp add: vlength_def multiplyScalar_def real_sqrt_mult)
qed

lemma multiplyScalar_twice: "multiplyScalar (multiplyScalar p a) b = multiplyScalar p (a * b)"
  by (simp add: multiplyScalar_def algebra_simps)

lemma setLength_scale:
  "setLength p l = multiplyScalar p (l / (if vlength p = 0 then 1 else vlength p))"
  by (simp add: setLength_def Let_def multiplyScalar_twice)

lemma vlength_setLength:
  assumes "vlength p \<noteq> 0" and "0 \<le> l"
  shows "vlength (setLength p l) = l"
  using assms vlength_nonneg [of p]
  by (simp add: setLength_scale vlength_multiplyScalar)

lemma vlength_setLength_zero:
  assumes "vlength p = 0"
  shows "vlength (setLength p l) = 0"
  using assms by (simp add: setLength_scale vlength_multiplyScalar)

lemma multiplyScalar_one: "multiplyScalar p 1 = p"
  by (simp add: multiplyScalar_def)

lemma camera_frame_cases:
  "camera_frame treeState delta position =
     (if \<bar>targetDist treeState - vlength position\<bar> > 0.1
         \<and> vlength position
             + (targetDist treeState - vlength position) * min delta 0.1 * 2.5 > 0.1
      then setLength position
             (vlength position + (targetDist treeState - vlength position) * min delta 0.1 * 2.5)
      else position)"
  by (simp add: camera_frame_def safeDelta_def Let_def)

lemma vlength_on_axis: "vlength (Vector3 0 0 z) = \<bar>z\<bar>"
  by (simp add: vlength_def)

lemma camera_start_scattered:
  "camera_frame SCATTERED (1 / 5) (Vector3 0 0 33) = Vector3 0 0 26"
proof -
  have l: "vlength (Vector3 0 0 33) = 33"
    by (simp add: vlength_on_axis)
  show ?thesis
    by (simp add: camera_frame_cases l targetDist_def setLength_scale multiplyScalar_def)
qed

lemma camera_frame_length:
  "vlength (camera_frame treeState delta position) =
     (if \<bar>targetDist treeState - vlength position\<bar> > 0.1
         \<and> vlength position
             + (targetDist treeState - vlength position) * min delta 0.1 * 2.5 > 0.1
         \<and> vlength position \<noteq> 0
      then vlength position + (targetDist treeState - vlength position) * min delta 0.1 * 2.5
      else vlength position)"
  by (simp add: camera_frame_cases vlength_setLength vlength_setLength_zero)

lemma scaled_step_between:
  fixes d D m :: real
  assumes "0 \<le> m" and "m \<le> 1"
  shows "(d \<le> D \<longrightarrow> d \<le> d + (D - d) * m \<and> d + (D - d) * m \<le> D)
       \<and> (D \<le> d \<longrightarrow> D \<le> d + (D - d) * m \<and> d + (D - d) * m \<le> d)"
proof -
  have up: "0 \<le> (D - d) * m \<and> (D - d) * m \<le> D - d" if "d \<le> D"
    using that assms by (simp add: mult_left_le)
  have down: "0 \<le> (d - D) * m \<and> (d - D) * m \<le> d - D" if "D \<le> d"
    using that assms by (simp add: mult_left_le)
  have neg: "(D - d) * m = - ((d - D) * m)"
    by (simp add: algebra_simps)
  show ?thesis
    using up down neg by linarith
qed

text \<open>
  Claim C6, as the code has it: the camera update leaves the position as it is when
  \<open>|D - d|\<close> is at most 0.1, and also when the new length
  \<open>d + (D - d) * min(dt, 0.1) * 2.5\<close> would be at most 0.1; otherwise it rescales a
  non-zero position to exactly that new length, the frame delta being clamped to 0.1
  first. In every case the new position is a non-negative multiple of the old one, so
  the viewing direction is kept.
\<close>

theorem camera_frame_rescales:
  "(\<bar>targetDist treeState - vlength position\<bar> \<le> 0.1
      \<longrightarrow> camera_frame treeState delta position = position)
   \<and> (vlength position + (targetDist treeState - vlength position) * min delta 0.1 * 2.5 \<le> 0.1
      \<longrightarrow> camera_frame treeState delta position = position)
   \<and> (\<bar>targetDist treeState - vlength position\<bar> > 0.1
       \<and> vlength position + (targetDist treeState - vlength position) * min delta 0.1 * 2.5 > 0.1
       \<and> vlength position \<noteq> 0
      \<longrightarrow> vlength (camera_frame treeState delta position)
            = vlength position + (targetDist treeState - vlength position) * min delta 0.1 * 2.5)
   \<and> (\<exists>k. 0 \<le> k \<and> camera_frame treeState delta position = multiplyScalar position k)"
proof -
  let ?d = "vlength position"
  let ?n = "?d + (targetDist treeState - ?d) * min delta 0.1 * 2.5"
  have a: "\<bar>targetDist treeState - ?d\<bar> \<le> 0.1
           \<longrightarrow> camera_frame treeState delta position = position"
    by (simp add: camera_frame_cases)
  have b: "?n \<le> 0.1 \<longrightarrow> camera_frame treeState delta position = position"
    by (simp add: camera_frame_cases)
  have c: "\<bar>targetDist treeState - ?d\<bar> > 0.1 \<and> ?n > 0.1 \<and> ?d \<noteq> 0
           \<longrightarrow> vlength (camera_frame treeState delta position) = ?n"
  proof
    assume h: "\<bar>targetDist treeState - ?d\<bar> > 0.1 \<and> ?n > 0.1 \<and> ?d \<noteq> 0"
    then have "camera_frame treeState delta position = setLength position ?n"
      by (simp add: camera_frame_cases)
    moreover have "vlength (setLength position ?n) = ?n"
      using h by (intro vlength_setLength) simp_all
    ultimately show "vlength (camera_frame treeState delta position) = ?n"
      by simp
  qed
  have d: "\<exists>k. 0 \<le> k \<and> camera_frame treeState delta position = multiplyScalar position k"
  proof (cases "\<bar>targetDist treeState - ?d\<bar> > 0.1 \<and> ?n > 0.1")
    case True
    then have "camera_frame treeState delta position
               = multiplyScalar position (?n / (if ?d = 0 then 1 else ?d))"
      by (simp add: camera_frame_cases setLength_scale)
    moreover have "0 \<le> ?n / (if ?d = 0 then 1 else ?d)"
      using True vlength_nonneg [of position] by simp
    ultimately show ?thesis by blast
  next
    case False
    then have "camera_frame treeState delta position = multiplyScalar position 1"
      by (auto simp add: camera_frame_cases multiplyScalar_one)
    then show ?thesis by (intro exI [of _ 1]) simp
  qed
  from a b c d show ?thesis by blast
qed

theorem camera_frame_rescales_witness:
  "\<bar>targetDist SCATTERED - vlength (Vector3 0 0 33)\<bar> > 0.1
   \<and> vlength (Vector3 0 0 33) \<noteq> 0
   \<and> vlength (camera_frame SCATTERED (1 / 5) (Vector3 0 0 33)) = 26
   \<and> camera_frame SCATTERED (1 / 5) (Vector3 0 0 5) = Vector3 0 0 5"
proof -
  have l: "vlength (Vector3 0 0 33) = 33" "vlength (Vector3 0 0 5) = 5"
    by (simp_all add: vlength_on_axis)
  show ?thesis
    using camera_frame_rescales [of SCATTERED "Vector3 0 0 33" "1 / 5"]
          camera_frame_rescales [of SCATTERED "Vector3 0 0 5" "1 / 5"]
    by (simp add: l targetDist_def)
qed

text \<open>
  The claim's step \<open>(D - d) * dt * speed\<close> fails for a slow frame: at \<open>dt = 0.2\<close>, from
  the start position at distance 33 and with target 5, the code moves to distance 26,
  not to \<open>33 + (5 - 33) * 0.2 * 2.5 = 19\<close>.
\<close>

theorem camera_move_unclamped_counterexample:
  "vlength (camera_frame SCATTERED (1 / 5) (Vector3 0 0 33)) = 26
   \<and> vlength (camera_frame SCATTERED (1 / 5) (Vector3 0 0 33))
       \<noteq> vlength (Vector3 0 0 33)
           + (targetDist SCATTERED - vlength (Vector3 0 0 33)) * (1 / 5) * 2.5"
  by (simp add: camera_start_scattered vlength_on_axis targetDist_def)

text \<open>
  Claim C7, as the code has it: only the camera update clamps the frame delta, to at most
  0.1, so that it depends on \<open>delta\<close> through the clamped value alone and, for every
  \<open>delta \<ge> 0\<close> however large, moves the distance toward the target and never past it.
  The particle layers, the ornaments, the crowning marker and the gingerbread man hand
  the frame delta to the smoothing routine as it arrives.
\<close>

theorem only_camera_clamps_delta:
  "safeDelta delta \<le> 0.1
   \<and> camera_frame treeState delta position = camera_frame treeState (safeDelta delta) position
   \<and> call_delta (progress_call sub treeState delta) = delta
   \<and> (0 \<le> delta \<longrightarrow>
        (vlength position \<le> targetDist treeState \<longrightarrow>
           vlength position \<le> vlength (camera_frame treeState delta position)
         \<and> vlength (camera_frame treeState delta position) \<le> targetDist treeState)
      \<and> (targetDist treeState \<le> vlength position \<longrightarrow>
           targetDist treeState \<le> vlength (camera_frame treeState delta position)
         \<and> vlength (camera_frame treeState delta position) \<le> vlength position))"
proof -
  have a: "safeDelta delta \<le> 0.1"
    by (simp add: safeDelta_def)
  have b: "camera_frame treeState delta position
           = camera_frame treeState (safeDelta delta) position"
    by (simp add: camera_frame_def safeDelta_def)
  have c: "call_delta (progress_call sub treeState delta) = delta"
    by (simp add: progress_call_def)
  have d: "(vlength position \<le> targetDist treeState \<longrightarrow>
              vlength position \<le> vlength (camera_frame treeState delta position)
            \<and> vlength (camera_frame treeState delta position) \<le> targetDist treeState)
         \<and> (targetDist treeState \<le> vlength position \<longrightarrow>
              targetDist treeState \<le> vlength (camera_frame treeState delta position)
            \<and> vlength (camera_frame treeState delta position) \<le> vlength position)"
    if h: "0 \<le> delta"
  proof -
    have m: "0 \<le> min delta 0.1 * 2.5" "min delta 0.1 * 2.5 \<le> 1"
      using h by (simp_all add: min_def)
    have e: "(targetDist treeState - vlength position) * min delta 0.1 * 2.5
             = (targetDist treeState - vlength position) * (min delta 0.1 * 2.5)"
      by (simp only: mult.assoc)
    show ?thesis
      unfolding camera_frame_length e
      using scaled_step_between [OF m, of "vlength position" "targetDist treeState"]
      by simp
  qed
  from a b c d show ?thesis by blast
qed

theorem only_camera_clamps_delta_witness:
  "safeDelta 1000 \<le> 0.1
   \<and> call_delta (progress_call Foliage TREE_SHAPE 1000) = 1000
   \<and> (0::real) \<le> 1000
   \<and> vlength (Vector3 0 0 5) \<le> targetDist TREE_SHAPE
   \<and> vlength (Vector3 0 0 5) \<le> vlength (camera_frame TREE_SHAPE 1000 (Vector3 0 0 5))
   \<and> vlength (camera_frame TREE_SHAPE 1000 (Vector3 0 0 5)) \<le> targetDist TREE_SHAPE"
proof -
  have l: "vlength (Vector3 0 0 5) \<le> targetDist TREE_SHAPE"
    by (simp add: vlength_on_axis targetDist_def)
  have z: "(0::real) \<le> 1000"
    by simp
  show ?thesis
    using only_camera_clamps_delta [of 1000 TREE_SHAPE "Vector3 0 0 5" Foliage] l z
    by blast
qed

text \<open>
  The claim fails for the progress updates: no bound holds for the delta that Foliage
  passes to the smoothing routine.
\<close>

theorem progress_delta_unclamped_counterexample:
  "\<not> (\<exists>B. \<forall>delta. call_delta (progress_call Foliage TREE_SHAPE delta) \<le> B)"
proof
  assume "\<exists>B. \<forall>delta. call_delta (progress_call Foliage TREE_SHAPE delta) \<le> B"
  then obtain B where "\<forall>delta. call_delta (progress_call Foliage TREE_SHAPE delta) \<le> B"
    by blast
  then have "call_delta (progress_call Foliage TREE_SHAPE (B + 1)) \<le> B"
    by blast
  then show False
    by (simp add: progress_call_def)
qed

section \<open>Properties of the blended positions\<close>

lemma lerpVectors_ends: "lerpVectors s t 0 = s" "lerpVectors s t 1 = t"
  by (simp_all add: lerpVectors_def)

text \<open>
  Claim C9, as the code has it: in the ornaments, the crowning marker, the spiral particles
  and the foliage shader, the output position of an entity is the componentwise
  interpolation \<open>scatterPos + (formationPos - scatterPos) * progress\<close> plus the
  subsystem's oscillation (on y, and for the ornaments also on x), and nothing else; the
  interpolation alone is \<open>scatterPos\<close> at progress 0 and \<open>formationPos\<close> at progress 1.
  The gingerbread man adds no oscillation: its position is that interpolation blended
  further, by its mode factor \<open>m\<close>, toward the point 5 units in front of the camera, so
  it is the interpolation itself when \<open>m = 0\<close> and the camera-front point when \<open>m = 1\<close>.
\<close>

theorem blended_positions:
  "ornament_position item p time =
     Vector3 (vx (lerpVectors (scatterPos item) (treePos item) p)
                + cos (time * 0.3 + phase item) * ((0.2 * (1 - p) + 0.05 * p) * 0.5))
             (vy (lerpVectors (scatterPos item) (treePos item) p)
                + sin (time * 0.5 + phase item) * (0.2 * (1 - p) + 0.05 * p))
             (vz (lerpVectors (scatterPos item) (treePos item) p))
   \<and> star_position s t p time =
     Vector3 (vx (lerpVectors s t p))
             (vy (lerpVectors s t p) + sin (time * 2) * 0.1)
             (vz (lerpVectors s t p))
   \<and> spiral_position s t i p time =
     Vector3 (vx (lerpVectors s t p))
             (vy (lerpVectors s t p) + sin (time * 1.0 + real i * 0.2) * 0.1 * p)
             (vz (lerpVectors s t p))
   \<and> foliage_position s t rnd p time =
     Vector3 (vx (lerpVectors s t p))
             (vy (lerpVectors s t p)
                + mix (sin (time * 0.5 + rnd * 5.0) * 0.5) (sin (time * 1.5 + rnd * 10.0) * 0.1) p)
             (vz (lerpVectors s t p))
   \<and> gingerbread_position s t p m cameraPos cameraDir =
     lerpVectors (lerpVectors s t p) (vadd cameraPos (multiplyScalar cameraDir 5)) m
   \<and> gingerbread_position s t p 0 cameraPos cameraDir = lerpVectors s t p
   \<and> gingerbread_position s t p 1 cameraPos cameraDir
       = vadd cameraPos (multiplyScalar cameraDir 5)
   \<and> lerpVectors s t p =
     Vector3 (vx s + (vx t - vx s) * p) (vy s + (vy t - vy s) * p) (vz s + (vz t - vz s) * p)
   \<and> lerpVectors s t 0 = s
   \<and> lerpVectors s t 1 = t"
proof -
  have g: "gingerbread_position s t p m cameraPos cameraDir =
     lerpVectors (lerpVectors s t p) (vadd cameraPos (multiplyScalar cameraDir 5)) m"
    by (simp add: gingerbread_position_def Let_def)
  have g0: "gingerbread_position s t p 0 cameraPos cameraDir = lerpVectors s t p"
    by (simp add: gingerbread_position_def Let_def lerpVectors_ends)
  have g1: "gingerbread_position s t p 1 cameraPos cameraDir
            = vadd cameraPos (multiplyScalar cameraDir 5)"
    by (simp add: gingerbread_position_def Let_def lerpVectors_ends)
  have o: "ornament_position item p time =
     Vector3 (vx (lerpVectors (scatterPos item) (treePos item) p)
                + cos (time * 0.3 + phase item) * ((0.2 * (1 - p) + 0.05 * p) * 0.5))
             (vy (lerpVectors (scatterPos item) (treePos item) p)
                + sin (time * 0.5 + phase item) * (0.2 * (1 - p) + 0.05 * p))
             (vz (lerpVectors (scatterPos item) (treePos item) p))"
    by (simp add: ornament_position_def Let_def)
  have st: "star_position s t p time =
     Vector3 (vx (lerpVectors s t p))
             (vy (lerpVectors s t p) + sin (time * 2) * 0.1)
             (vz (lerpVectors s t p))"
    by (simp add: star_position_def Let_def)
  have sp: "spiral_position s t i p time =
     Vector3 (vx (lerpVectors s t p))
             (vy (lerpVectors s t p) + sin (time * 1.0 + real i * 0.2) * 0.1 * p)
             (vz (lerpVectors s t p))"
    by (simp add: spiral_position_def lerpVectors_def Let_def)
  have m: "mix a b p = a + (b - a) * p" for a b :: real
    by (simp add: mix_def algebra_simps)
  have f: "foliage_position s t rnd p time =
     Vector3 (vx (lerpVectors s t p))
             (vy (lerpVectors s t p)
                + mix (sin (time * 0.5 + rnd * 5.0) * 0.5) (sin (time * 1.5 + rnd * 10.0) * 0.1) p)
             (vz (lerpVectors s t p))"
    unfolding foliage_position_def mix3_def lerpVectors_def multiplyScalar_def Let_def
    by (simp add: mix_def algebra_simps)
  have l: "lerpVectors s t p =
     Vector3 (vx s + (vx t - vx s) * p) (vy s + (vy t - vy s) * p) (vz s + (vz t - vz s) * p)"
    by (simp add: lerpVectors_def)
  from o st sp f g g0 g1 l lerpVectors_ends [of s t] show ?thesis
    by blast
qed

text \<open>
  The claim fails for the gingerbread man: with scatter position \<open>(1, 2, 3)\<close>, progress 0,
  the camera at \<open>(0, 0, 33)\<close> looking along \<open>-z\<close> and the mode factor at 1, its position is
  the camera-front point \<open>(0, 0, 28)\<close>, not the scatter position; halfway, at mode factor
  \<open>1/2\<close>, it is the midpoint of the two.
\<close>

theorem gingerbread_not_plain_blend_counterexample:
  "gingerbread_position (Vector3 1 2 3) (Vector3 4 5 6) 0 1 (Vector3 0 0 33) (Vector3 0 0 (- 1))
     = Vector3 0 0 28
   \<and> gingerbread_position (Vector3 1 2 3) (Vector3 4 5 6) 0 1 (Vector3 0 0 33)
         (Vector3 0 0 (- 1))
       \<noteq> lerpVectors (Vector3 1 2 3) (Vector3 4 5 6) 0
   \<and> gingerbread_position (Vector3 1 2 3) (Vector3 4 5 6) 0 (1 / 2) (Vector3 0 0 33)
         (Vector3 0 0 (- 1))
       = Vector3 (1 / 2) 1 (31 / 2)"
  by (simp add: gingerbread_position_def lerpVectors_def vadd_def multiplyScalar_def Let_def)

section \<open>Properties of the burst scheduler\<close>

lemma burst_inv_mount: "burst_inv (mount m)"
  by (cases m) (simp_all add: mount_def burst_effect_def burst_inv_def)

lemma burst_inv_render:
  assumes "burst_inv s"
  shows "burst_inv (render m s)"
proof (cases "m = mode s")
  case True
  with assms show ?thesis by (simp add: render_def)
next
  case False
  show ?thesis
  proof (cases m)
    case SCATTERED
    with False have t: "mode s = TREE_SHAPE"
      by (cases "mode s") simp_all
    with assms have "timers s = []" "cleanup s = None"
      by (auto simp add: burst_inv_def)
    with SCATTERED t show ?thesis
      by (simp add: render_def run_cleanup_def burst_effect_def burst_inv_def)
  next
    case TREE_SHAPE
    with False have t: "mode s = SCATTERED"
      by (cases "mode s") simp_all
    from assms consider (idle) "timers s = []"
      | (armed) i due where "timers s = [(i, due)]" "cleanup s = Some i"
      by (auto simp add: burst_inv_def)
    then show ?thesis
    proof cases
      case idle
      with TREE_SHAPE t show ?thesis
        by (simp add: render_def run_cleanup_def clearTimeout_def burst_effect_def
            burst_inv_def split: option.splits)
    next
      case armed
      with TREE_SHAPE t show ?thesis
        by (simp add: render_def run_cleanup_def clearTimeout_def burst_effect_def
            burst_inv_def)
    qed
  qed
qed

lemma burst_inv_elapse:
  assumes "burst_inv s"
  shows "burst_inv (elapse d s)"
proof -
  from assms consider (idle) "timers s = []" "burstRef s = 1"
      "mode s = TREE_SHAPE \<longrightarrow> cleanup s = None"
    | (armed) i due where "timers s = [(i, due)]" "burstRef s = 2" "mode s = SCATTERED"
      "cleanup s = Some i"
    by (auto simp add: burst_inv_def)
  then show ?thesis
  proof cases
    case idle
    then show ?thesis
      by (simp add: burst_inv_def elapse_def Let_def)
  next
    case armed
    then show ?thesis
      by (cases "due \<le> now s + d") (simp_all add: burst_inv_def elapse_def Let_def)
  qed
qed

lemma burst_inv_step: "burst_inv s \<Longrightarrow> burst_inv (step e s)"
  by (cases e) (simp_all add: burst_inv_render burst_inv_elapse)

lemma burst_inv_run: "burst_inv s \<Longrightarrow> burst_inv (run s es)"
  by (induction es arbitrary: s) (simp_all add: burst_inv_step)

lemma elapse_idle:
  assumes "timers s = []" and "burstRef s = 1"
  shows "burstRef (run s (map Elapse ds)) = 1 \<and> timers (run s (map Elapse ds)) = []"
  using assms
proof (induction ds arbitrary: s)
  case Nil
  then show ?case by simp
next
  case (Cons d ds)
  have "timers (elapse d s) = []" "burstRef (elapse d s) = 1"
    using Cons.prems by (simp_all add: elapse_def Let_def)
  then show ?case
    using Cons.IH by simp
qed

lemma elapse_armed:
  assumes "timers s = [(i, due)]" and "burstRef s = 2" and "now s < due"
  shows "burstRef (run s (map Elapse ds)) = (if now s + sum_list ds < due then 2 else 1)
       \<and> timers (run s (map Elapse ds)) = (if now s + sum_list ds < due then [(i, due)] else [])"
  using assms
proof (induction ds arbitrary: s)
  case Nil
  then show ?case by simp
next
  case (Cons d ds)
  show ?case
  proof (cases "due \<le> now s + d")
    case True
    have e: "timers (elapse d s) = []" "burstRef (elapse d s) = 1"
      using True Cons.prems by (simp_all add: elapse_def Let_def)
    have "burstRef (run (elapse d s) (map Elapse ds)) = 1
        \<and> timers (run (elapse d s) (map Elapse ds)) = []"
      using e by (rule elapse_idle)
    with True show ?thesis by simp
  next
    case False
    have e: "timers (elapse d s) = [(i, due)]" "burstRef (elapse d s) = 2"
      "now (elapse d s) = now s + d"
      using False Cons.prems by (simp_all add: elapse_def Let_def)
    have l: "now (elapse d s) < due"
      using False e(3) by simp
    show ?thesis
      using Cons.IH [OF e(1,2) l] by (simp add: e(3) add.assoc)
  qed
qed

lemma render_scattered_from_tree:
  assumes "burst_inv s" and "mode s = TREE_SHAPE"
  shows "timers (render SCATTERED s) = [(nextTimer s, now s + 3000)]"
    and "burstRef (render SCATTERED s) = 2"
    and "now (render SCATTERED s) = now s"
proof -
  have "timers s = []" "cleanup s = None"
    using assms by (auto simp add: burst_inv_def)
  then show "timers (render SCATTERED s) = [(nextTimer s, now s + 3000)]"
    and "burstRef (render SCATTERED s) = 2"
    and "now (render SCATTERED s) = now s"
    using assms(2) by (simp_all add: render_def run_cleanup_def burst_effect_def)
qed

lemma render_tree_keeps:
  "nextTimer (render TREE_SHAPE s) = nextTimer s"
  "now (render TREE_SHAPE s) = now s"
  "mode (render TREE_SHAPE s) = TREE_SHAPE"
  by (cases "mode s"; simp add: render_def run_cleanup_def clearTimeout_def burst_effect_def
        split: option.splits)+

lemma trigger_window:
  assumes "burst_inv s" and "mode s = TREE_SHAPE"
  shows "burstRef (run s (Render SCATTERED # map Elapse ds))
           = (if sum_list ds < 3000 then 2 else 1)
       \<and> timers (run s (Render SCATTERED # map Elapse ds))
           = (if sum_list ds < 3000 then [(nextTimer s, now s + 3000)] else [])"
proof -
  note r = render_scattered_from_tree [OF assms]
  have "now (render SCATTERED s) < now s + 3000"
    by (simp add: r(3))
  from elapse_armed [OF r(1) r(2) this, of ds] show ?thesis
    by (simp add: r(3))
qed

text \<open>
  Claim C5: in every state the scheduler reaches from mount through renders and the
  passing of time, at most one timeout is pending, and the multiplier is 2 while one is
  pending and 1 otherwise (1 whenever the mode is TREE_SHAPE). When the mode becomes
  SCATTERED, from TREE_SHAPE or by leaving and re-entering SCATTERED during a burst,
  the multiplier is 2 at once and stays 2 until exactly 3000 ms have passed since that
  newest trigger, then it is 1; the only pending timeout is the new one, due 3000 ms after
  the newest trigger.
\<close>

theorem burst_scheduler:
  assumes "s = run (mount m0) es"
  shows "length (timers s) \<le> 1
       \<and> burstRef s = (if timers s = [] then 1 else 2)
       \<and> (mode s = TREE_SHAPE \<longrightarrow> timers s = [])
       \<and> (\<forall>ds. burstRef (run s ((if mode s = SCATTERED then [Render TREE_SHAPE] else [])
                                  @ Render SCATTERED # map Elapse ds))
                  = (if sum_list ds < 3000 then 2 else 1)
              \<and> timers (run s ((if mode s = SCATTERED then [Render TREE_SHAPE] else [])
                                  @ Render SCATTERED # map Elapse ds))
                  = (if sum_list ds < 3000 then [(nextTimer s, now s + 3000)] else []))"
proof -
  have inv: "burst_inv s"
    unfolding assms by (intro burst_inv_run burst_inv_mount)
  have a: "length (timers s) \<le> 1"
    using inv by (auto simp add: burst_inv_def)
  have b: "burstRef s = (if timers s = [] then 1 else 2)"
    using inv by (auto simp add: burst_inv_def)
  have c: "mode s = TREE_SHAPE \<longrightarrow> timers s = []"
    using inv by (auto simp add: burst_inv_def)
  have d: "burstRef (run s ((if mode s = SCATTERED then [Render TREE_SHAPE] else [])
                                  @ Render SCATTERED # map Elapse ds))
                  = (if sum_list ds < 3000 then 2 else 1)
              \<and> timers (run s ((if mode s = SCATTERED then [Render TREE_SHAPE] else [])
                                  @ Render SCATTERED # map Elapse ds))
                  = (if sum_list ds < 3000 then [(nextTimer s, now s + 3000)] else [])" for ds
  proof (cases "mode s")
    case SCATTERED
    have i: "burst_inv (render TREE_SHAPE s)"
      using inv by (rule burst_inv_render)
    from trigger_window [OF i render_tree_keeps(3), of ds] SCATTERED show ?thesis
      by (simp add: render_tree_keeps)
  next
    case TREE_SHAPE
    from trigger_window [OF inv TREE_SHAPE, of ds] TREE_SHAPE show ?thesis
      by simp
  qed
  from a b c d show ?thesis by blast
qed

theorem burst_scheduler_witness:
  "burstRef (run (mount TREE_SHAPE) [Render SCATTERED, Elapse 1500]) = 2
   \<and> timers (run (mount TREE_SHAPE) [Render SCATTERED, Elapse 1500]) = [(0, 3000)]
   \<and> burstRef (run (run (mount TREE_SHAPE) [Render SCATTERED, Elapse 1500])
                 [Render TREE_SHAPE, Render SCATTERED, Elapse 2999]) = 2
   \<and> timers (run (run (mount TREE_SHAPE) [Render SCATTERED, Elapse 1500])
                 [Render TREE_SHAPE, Render SCATTERED, Elapse 2999]) = [(1, 4500)]
   \<and> burstRef (run (run (mount TREE_SHAPE) [Render SCATTERED, Elapse 1500])
                 [Render TREE_SHAPE, Render SCATTERED, Elapse 1000, Elapse 2000]) = 1
   \<and> timers (run (run (mount TREE_SHAPE) [Render SCATTERED, Elapse 1500])
                 [Render TREE_SHAPE, Render SCATTERED, Elapse 1000, Elapse 2000]) = []"
proof -
  let ?s = "run (mount TREE_SHAPE) [Render SCATTERED, Elapse 1500]"
  note th = burst_scheduler [OF refl, of TREE_SHAPE "[Render SCATTERED, Elapse 1500]"]
  have m: "mode ?s = SCATTERED" "nextTimer ?s = 1" "now ?s = 1500" "timers ?s = [(0, 3000)]"
    by (simp_all add: mount_def render_def burst_effect_def run_cleanup_def elapse_def Let_def)
  have a: "burstRef ?s = 2"
    using th m(4) by simp
  have w: "burstRef (run ?s ((if mode ?s = SCATTERED then [Render TREE_SHAPE] else [])
                              @ Render SCATTERED # map Elapse ds))
             = (if sum_list ds < 3000 then 2 else 1)
         \<and> timers (run ?s ((if mode ?s = SCATTERED then [Render TREE_SHAPE] else [])
                              @ Render SCATTERED # map Elapse ds))
             = (if sum_list ds < 3000 then [(nextTimer ?s, now ?s + 3000)] else [])" for ds
    using th by blast
  have b: "burstRef (run ?s [Render TREE_SHAPE, Render SCATTERED, Elapse 2999]) = 2
         \<and> timers (run ?s [Render TREE_SHAPE, Render SCATTERED, Elapse 2999]) = [(1, 4500)]"
    using w [of "[2999]"] unfolding m by simp
  have c: "burstRef (run ?s [Render TREE_SHAPE, Render SCATTERED, Elapse 1000, Elapse 2000]) = 1
         \<and> timers (run ?s [Render TREE_SHAPE, Render SCATTERED, Elapse 1000, Elapse 2000]) = []"
    using w [of "[1000, 2000]"] unfolding m by simp
  from a b c m(4) show ?thesis by blast
qed

end
